theory Spec2Isabelle
  imports Main "HOL-Library.Word"
begin

section \<open>The SQL expression bridge of pkg/expr/sql/db.go\<close>

text \<open>
  The source file holds two revisions of the bridge. They differ in how the execution
  context is built (the later one creates a session and selects the database \<open>mydb\<close>)
  and in the name of the first parameter of \<open>QueryFramesInto\<close> (\<open>name\<close>, then
  \<open>tableName\<close>); the control flow, the type mapping and the result decoding are the
  same text. The embedding follows the later revision and keeps its names.

  The data frame library and the embedded SQL engine are libraries outside the
  repository. Of the frame library the model keeps what db.go reads and writes: a frame's
  name and fields, a field's name, element type and values, \<open>NewField\<close>, \<open>At\<close>,
  \<open>Len\<close>, \<open>Rows\<close> and the typed \<open>Append\<close>. The engine is a parameter: a record of
  the two operations db.go calls on it, \<open>table.Insert\<close> and \<open>engine.Query\<close>; the
  row iterator \<open>engine.Query\<close> returns is a list of items, and \<open>iter.Next\<close>, the
  third call, is a function of the context and the item.
\<close>

subsection \<open>Frames\<close>

text \<open>
  \<open>data.FieldType\<close>: the thirteen tags \<open>convertDataType\<close> names, and
  \<open>FieldTypeOther\<close> for every other tag (the nullable variants, JSON, enum, unknown),
  carrying the Go name of the element type.
\<close>

datatype FieldType =
    FieldTypeInt8 | FieldTypeInt16 | FieldTypeInt32 | FieldTypeInt64
  | FieldTypeUint8 | FieldTypeUint16 | FieldTypeUint32 | FieldTypeUint64
  | FieldTypeFloat32 | FieldTypeFloat64
  | FieldTypeString | FieldTypeBool | FieldTypeTime
  | FieldTypeOther string

text \<open>
  A Go \<open>interface{}\<close> value with its dynamic type. Floats are kept as their bit
  patterns, a time as nanoseconds; \<open>GNil\<close> is the nil interface (an SQL NULL);
  \<open>GOther\<close> is a value of any other Go type, with the name of that type.
\<close>

datatype GoValue =
    GInt8 "8 word" | GInt16 "16 word" | GInt32 "32 word" | GInt64 "64 word"
  | GUint8 "8 word" | GUint16 "16 word" | GUint32 "32 word" | GUint64 "64 word"
  | GFloat32 "32 word" | GFloat64 "64 word"
  | GString string | GBool bool | GTime int
  | GNil
  | GOther string

text \<open>The element type whose vector accepts the value; the nil interface has none.\<close>

fun value_type :: "GoValue \<Rightarrow> FieldType option" where
  "value_type (GInt8 _) = Some FieldTypeInt8"
| "value_type (GInt16 _) = Some FieldTypeInt16"
| "value_type (GInt32 _) = Some FieldTypeInt32"
| "value_type (GInt64 _) = Some FieldTypeInt64"
| "value_type (GUint8 _) = Some FieldTypeUint8"
| "value_type (GUint16 _) = Some FieldTypeUint16"
| "value_type (GUint32 _) = Some FieldTypeUint32"
| "value_type (GUint64 _) = Some FieldTypeUint64"
| "value_type (GFloat32 _) = Some FieldTypeFloat32"
| "value_type (GFloat64 _) = Some FieldTypeFloat64"
| "value_type (GString _) = Some FieldTypeString"
| "value_type (GBool _) = Some FieldTypeBool"
| "value_type (GTime _) = Some FieldTypeTime"
| "value_type GNil = None"
| "value_type (GOther t) = Some (FieldTypeOther t)"

text \<open>What the format verb \<open>%T\<close> prints for the value.\<close>

fun type_name :: "GoValue \<Rightarrow> string" where
  "type_name (GInt8 _) = ''int8''"
| "type_name (GInt16 _) = ''int16''"
| "type_name (GInt32 _) = ''int32''"
| "type_name (GInt64 _) = ''int64''"
| "type_name (GUint8 _) = ''uint8''"
| "type_name (GUint16 _) = ''uint16''"
| "type_name (GUint32 _) = ''uint32''"
| "type_name (GUint64 _) = ''uint64''"
| "type_name (GFloat32 _) = ''float32''"
| "type_name (GFloat64 _) = ''float64''"
| "type_name (GString _) = ''string''"
| "type_name (GBool _) = ''bool''"
| "type_name (GTime _) = ''time.Time''"
| "type_name GNil = ''<nil>''"
| "type_name (GOther t) = t"

record Field =
  field_Name :: string
  field_Type :: FieldType
  field_Values :: "GoValue list"

record Frame =
  Name :: string
  Fields :: "Field list"

text \<open>
  A Go panic: an index out of range, a failed type assertion, or the panic of
  \<open>iter.Next\<close> under a context that has no session of the memory engine.
\<close>

datatype panic = IndexOutOfRange | InterfaceConversion | NextPanic

text \<open>\<open>data.NewField(name, nil, []T{})\<close>: an empty field of element type \<open>T\<close>.\<close>

definition NewField :: "string \<Rightarrow> FieldType \<Rightarrow> Field" where
  "NewField n t = \<lparr>field_Name = n, field_Type = t, field_Values = []\<rparr>"

definition Len :: "Field \<Rightarrow> nat" where
  "Len field = length (field_Values field)"

text \<open>\<open>field.At(i)\<close> indexes the vector and panics out of range.\<close>

definition At :: "Field \<Rightarrow> nat \<Rightarrow> panic + GoValue" where
  "At field i = (if i < Len field then Inr (field_Values field ! i) else Inl IndexOutOfRange)"

text \<open>
  \<open>field.Append(e)\<close>: the vector asserts the element's dynamic type
  (\<open>e.(int64)\<close> for an int64 vector) and panics when it is another type.
\<close>

definition Append :: "Field \<Rightarrow> GoValue \<Rightarrow> panic + Field" where
  "Append field e =
     (if value_type e = Some (field_Type field)
      then Inr (field\<lparr>field_Values := field_Values field @ [e]\<rparr>)
      else Inl InterfaceConversion)"

text \<open>\<open>frame.Rows()\<close>: the length of the first field, 0 without fields.\<close>

definition Rows :: "Frame \<Rightarrow> nat" where
  "Rows frame = (case Fields frame of [] \<Rightarrow> 0 | field # _ \<Rightarrow> Len field)"

subsection \<open>The relational side\<close>

text \<open>
  An engine column type, by the interface the type switch of \<open>convertToDataFrame\<close>
  asks for (\<open>NumberType\<close>, \<open>StringType\<close>, and the ones its comment lists as not
  implemented), with the SQL name of the type.
\<close>

datatype SqlType =
    NumberType string
  | StringType string
  | DatetimeType string
  | JsonType
  | OtherSqlType string

definition Int64 :: SqlType where "Int64 = NumberType ''bigint''"
definition Uint64 :: SqlType where "Uint64 = NumberType ''bigint unsigned''"
definition Float64 :: SqlType where "Float64 = NumberType ''double''"
definition Text :: SqlType where "Text = StringType ''text''"
definition Boolean :: SqlType where "Boolean = NumberType ''tinyint(1)''"
definition Timestamp :: SqlType where "Timestamp = DatetimeType ''timestamp''"
definition JSON :: SqlType where "JSON = JsonType"

record Column =
  col_Name :: string
  col_Type :: SqlType
  Nullable :: bool
  Source :: string

type_synonym Schema = "Column list"
type_synonym Row = "GoValue list"

record Table =
  tbl_name :: string
  tbl_schema :: Schema
  tbl_rows :: "Row list"

record Database =
  db_name :: string
  tables :: "string \<rightharpoonup> Table"

record DB =
  inMemoryDb :: Database

text \<open>
  The execution context. \<open>QueryFramesInto\<close> builds one with a session of the memory
  engine and passes it to \<open>table.Insert\<close> and \<open>engine.Query\<close>;
  \<open>convertToDataFrame\<close> passes \<open>mysql.NewEmptyContext()\<close>, which has no such
  session, to every \<open>iter.Next\<close>.
\<close>

datatype Context = EmptyContext | SessionContext

text \<open>
  A row iterator is a finite stream of items, and the end of the list is \<open>io.EOF\<close>.
  What \<open>iter.Next(ctx)\<close> returns for an item depends on the item and on the context:
  a row the engine computes from the statement alone (\<open>Computed\<close>, as for a select of
  literals) is returned under any context; a row read from a table of the memory engine
  (\<open>Stored\<close>) is returned under a context with the engine's session, and without one
  the table's iterator panics; \<open>Broken\<close> is an error of the iterator.
\<close>

datatype Item = Computed Row | Stored Row | Broken string

datatype NextResult = GotRow Row | GotError string | Panics

fun Next :: "Context \<Rightarrow> Item \<Rightarrow> NextResult" where
  "Next ctx (Computed row) = GotRow row"
| "Next SessionContext (Stored row) = GotRow row"
| "Next EmptyContext (Stored row) = Panics"
| "Next ctx (Broken err) = GotError err"

type_synonym RowIter = "Item list"

text \<open>
  The engine. \<open>Insert table row\<close> is \<open>table.Insert(ctx, row)\<close>: an error, or the row
  as the table stores it. \<open>Query db query\<close> is \<open>engine.Query(ctx, query)\<close>: the
  catalogue after the statement, and an error or the result schema with the row
  iterator. Both are called with the context that has the session.
\<close>

record Engine =
  Insert :: "Table \<Rightarrow> Row \<Rightarrow> string + Row"
  Query :: "Database \<Rightarrow> string \<Rightarrow> Database \<times> (string + Schema \<times> RowIter)"

text \<open>The errors db.go builds with \<open>fmt.Errorf\<close>, and the engine's own.\<close>

datatype error =
    NilFrame
  | InsertRowError nat string
  | QueryError string
  | UnsupportedColumnType string SqlType
  | ReadRowError string
  | UnsupportedValueType string string

text \<open>How a call ends: \<open>return nil\<close>, \<open>return err\<close>, or a panic.\<close>

datatype outcome = Success | Failure error | Panic panic

definition dbName :: string where
  "dbName = ''mydb''"

definition NewDatabase :: "string \<Rightarrow> Database" where
  "NewDatabase n = \<lparr>db_name = n, tables = Map.empty\<rparr>"

definition NewInMemoryDB :: DB where
  "NewInMemoryDB = \<lparr>inMemoryDb = NewDatabase dbName\<rparr>"

definition NewTable :: "string \<Rightarrow> Schema \<Rightarrow> Table" where
  "NewTable n schema = \<lparr>tbl_name = n, tbl_schema = schema, tbl_rows = []\<rparr>"

definition AddTable :: "Database \<Rightarrow> string \<Rightarrow> Table \<Rightarrow> Database" where
  "AddTable db n table = db\<lparr>tables := (tables db)(n \<mapsto> table)\<rparr>"

subsection \<open>convertDataType\<close>

fun convertDataType :: "FieldType \<Rightarrow> SqlType" where
  "convertDataType FieldTypeInt8 = Int64"
| "convertDataType FieldTypeInt16 = Int64"
| "convertDataType FieldTypeInt32 = Int64"
| "convertDataType FieldTypeInt64 = Int64"
| "convertDataType FieldTypeUint8 = Uint64"
| "convertDataType FieldTypeUint16 = Uint64"
| "convertDataType FieldTypeUint32 = Uint64"
| "convertDataType FieldTypeUint64 = Uint64"
| "convertDataType FieldTypeFloat32 = Float64"
| "convertDataType FieldTypeFloat64 = Float64"
| "convertDataType FieldTypeString = Text"
| "convertDataType FieldTypeBool = Boolean"
| "convertDataType FieldTypeTime = Timestamp"
| "convertDataType (FieldTypeOther _) = JSON"

subsection \<open>writeDataframeToDb\<close>

text \<open>The schema loop: one nullable column per field, its source the table name.\<close>

definition frame_schema :: "string \<Rightarrow> Frame \<Rightarrow> Schema" where
  "frame_schema tableName frame =
     map (\<lambda>field. \<lparr>col_Name = field_Name field,
                   col_Type = convertDataType (field_Type field),
                   Nullable = True,
                   Source = tableName\<rparr>) (Fields frame)"

text \<open>The inner loop \<open>row[j] = field.At(i)\<close>; it panics on a field shorter than the first.\<close>

fun frame_row :: "Field list \<Rightarrow> nat \<Rightarrow> panic + Row" where
  "frame_row [] i = Inr []"
| "frame_row (field # rest) i =
     (case At field i of
        Inl p \<Rightarrow> Inl p
      | Inr v \<Rightarrow> (case frame_row rest i of Inl p \<Rightarrow> Inl p | Inr vs \<Rightarrow> Inr (v # vs)))"

text \<open>
  The loop \<open>for i := 0; i < frame.Rows(); i++\<close>, with the number of rows still to
  insert as the second counter. The table is the one object the catalogue holds, so a
  row that was inserted stays when a later one fails.
\<close>

fun insert_rows :: "Engine \<Rightarrow> Frame \<Rightarrow> nat \<Rightarrow> nat \<Rightarrow> Table \<Rightarrow> outcome \<times> Table" where
  "insert_rows E frame i 0 table = (Success, table)"
| "insert_rows E frame i (Suc n) table =
     (case frame_row (Fields frame) i of
        Inl p \<Rightarrow> (Panic p, table)
      | Inr row \<Rightarrow>
          (case Insert E table row of
             Inl err \<Rightarrow> (Failure (InsertRowError i err), table)
           | Inr stored \<Rightarrow>
               insert_rows E frame (Suc i) n (table\<lparr>tbl_rows := tbl_rows table @ [stored]\<rparr>)))"

text \<open>
  \<open>frame\<close> is a pointer: \<open>None\<close> is nil. \<open>AddTable\<close> registers the table before the
  rows go in, and the catalogue and the loop share it, so the catalogue ends with the
  table as the loop left it.
\<close>

definition writeDataframeToDb ::
  "Engine \<Rightarrow> string \<Rightarrow> Frame option \<Rightarrow> Database \<Rightarrow> outcome \<times> Database" where
  "writeDataframeToDb E tableName frame db =
     (case frame of
        None \<Rightarrow> (Failure NilFrame, db)
      | Some fr \<Rightarrow>
          (let schema = frame_schema tableName fr;
               table = NewTable tableName schema;
               db1 = AddTable db tableName table;
               res = insert_rows E fr 0 (Rows fr) table
           in (fst res, AddTable db1 tableName (snd res))))"

subsection \<open>convertToDataFrame\<close>

text \<open>Sequencing: the next step runs on the state only after a \<open>nil\<close> error.\<close>

definition and_then :: "outcome \<times> 's \<Rightarrow> ('s \<Rightarrow> outcome \<times> 's) \<Rightarrow> outcome \<times> 's" where
  "and_then r k = (case fst r of Success \<Rightarrow> k (snd r) | _ \<Rightarrow> r)"

text \<open>The first loop: a field per column, appended to the frame's fields.\<close>

fun make_fields :: "Schema \<Rightarrow> Frame \<Rightarrow> outcome \<times> Frame" where
  "make_fields [] f = (Success, f)"
| "make_fields (col # cols) f =
     (case col_Type col of
        NumberType _ \<Rightarrow>
          make_fields cols (f\<lparr>Fields := Fields f @ [NewField (col_Name col) FieldTypeInt64]\<rparr>)
      | StringType _ \<Rightarrow>
          make_fields cols (f\<lparr>Fields := Fields f @ [NewField (col_Name col) FieldTypeString]\<rparr>)
      | _ \<Rightarrow> (Failure (UnsupportedColumnType (col_Name col) (col_Type col)), f))"

text \<open>\<open>f.Fields[i].Append(v)\<close>: the index is checked first, then the element type.\<close>

definition append_at :: "Frame \<Rightarrow> nat \<Rightarrow> GoValue \<Rightarrow> outcome \<times> Frame" where
  "append_at f i v =
     (if i < length (Fields f)
      then (case Append (Fields f ! i) v of
              Inl p \<Rightarrow> (Panic p, f)
            | Inr field \<Rightarrow> (Success, f\<lparr>Fields := (Fields f)[i := field]\<rparr>))
      else (Panic IndexOutOfRange, f))"

text \<open>The default branch reads \<open>schema[i].Name\<close> for its message.\<close>

definition unsupported_value :: "Schema \<Rightarrow> Frame \<Rightarrow> nat \<Rightarrow> GoValue \<Rightarrow> outcome \<times> Frame" where
  "unsupported_value schema f i v =
     (if i < length schema
      then (Failure (UnsupportedValueType (col_Name (schema ! i)) (type_name v)), f)
      else (Panic IndexOutOfRange, f))"

text \<open>The type switch on one value of a row.\<close>

fun append_value :: "Schema \<Rightarrow> nat \<Rightarrow> GoValue \<Rightarrow> Frame \<Rightarrow> outcome \<times> Frame" where
  "append_value schema i (GInt8 v) f = append_at f i (GInt64 (scast v))"
| "append_value schema i (GInt64 v) f = append_at f i (GInt64 v)"
| "append_value schema i (GFloat64 v) f = append_at f i (GFloat64 v)"
| "append_value schema i (GString v) f = append_at f i (GString v)"
| "append_value schema i (GBool v) f = append_at f i (GBool v)"
| "append_value schema i v f = unsupported_value schema f i v"

text \<open>\<open>for i, val := range row\<close>.\<close>

fun append_values :: "Schema \<Rightarrow> nat \<Rightarrow> Row \<Rightarrow> Frame \<Rightarrow> outcome \<times> Frame" where
  "append_values schema i [] f = (Success, f)"
| "append_values schema i (val # vals) f =
     and_then (append_value schema i val f) (append_values schema (Suc i) vals)"

text \<open>
  The row loop: \<open>iter.Next(mysql.NewEmptyContext())\<close> until \<open>io.EOF\<close>, or the first
  error.
\<close>

fun read_rows :: "Schema \<Rightarrow> RowIter \<Rightarrow> Frame \<Rightarrow> outcome \<times> Frame" where
  "read_rows schema [] f = (Success, f)"
| "read_rows schema (item # rest) f =
     (case Next EmptyContext item of
        GotRow row \<Rightarrow> and_then (append_values schema 0 row f) (read_rows schema rest)
      | GotError err \<Rightarrow> (Failure (ReadRowError err), f)
      | Panics \<Rightarrow> (Panic NextPanic, f))"

definition convertToDataFrame :: "RowIter \<Rightarrow> Schema \<Rightarrow> Frame \<Rightarrow> outcome \<times> Frame" where
  "convertToDataFrame iter schema f = and_then (make_fields schema f) (read_rows schema iter)"

subsection \<open>QueryFramesInto\<close>

text \<open>The loop over the input frames: each one is written under \<open>tableName\<close>.\<close>

fun write_frames ::
  "Engine \<Rightarrow> string \<Rightarrow> Frame option list \<Rightarrow> Database \<Rightarrow> outcome \<times> Database" where
  "write_frames E tableName [] db = (Success, db)"
| "write_frames E tableName (frame # frames) db =
     and_then (writeDataframeToDb E tableName frame db) (write_frames E tableName frames)"

text \<open>
  The result is the returned error, the output frame \<open>f\<close> as the call leaves it, and
  the handle as the call leaves it.
\<close>

definition QueryFramesInto ::
  "Engine \<Rightarrow> string \<Rightarrow> string \<Rightarrow> Frame option list \<Rightarrow> Frame \<Rightarrow> DB \<Rightarrow> outcome \<times> Frame \<times> DB" where
  "QueryFramesInto E tableName query frames f db =
     (let f1 = f\<lparr>Name := tableName\<rparr>;
          w = write_frames E tableName frames (inMemoryDb db)
      in case fst w of
           Success \<Rightarrow>
             (case Query E (snd w) query of
                (d, Inl err) \<Rightarrow> (Failure (QueryError err), f1, db\<lparr>inMemoryDb := d\<rparr>)
              | (d, Inr (schema, iter)) \<Rightarrow>
                  (let c = convertToDataFrame iter schema f1
                   in (fst c, snd c, db\<lparr>inMemoryDb := d\<rparr>)))
         | r \<Rightarrow> (r, f1, db\<lparr>inMemoryDb := snd w\<rparr>))"

subsection \<open>What decoding appends, as a function of the rows\<close>

text \<open>
  The values the type switch has a case for, and what it appends for each: an int8 is
  widened to int64, the others go in as they are.
\<close>

fun decodable :: "GoValue \<Rightarrow> bool" where
  "decodable (GInt8 _) = True"
| "decodable (GInt64 _) = True"
| "decodable (GFloat64 _) = True"
| "decodable (GString _) = True"
| "decodable (GBool _) = True"
| "decodable _ = False"

fun widen :: "GoValue \<Rightarrow> GoValue" where
  "widen (GInt8 v) = GInt64 (scast v)"
| "widen v = v"

text \<open>Column \<open>i\<close> of a list of rows, decoded: a row shorter than \<open>i\<close> gives nothing.\<close>

definition column_values :: "nat \<Rightarrow> Row list \<Rightarrow> GoValue list" where
  "column_values i rows = concat (map (\<lambda>row. if i < length row then [widen (row ! i)] else []) rows)"


fun column_field_type :: "Column \<Rightarrow> FieldType" where
  "column_field_type col = (case col_Type col of NumberType _ \<Rightarrow> FieldTypeInt64 | _ \<Rightarrow> FieldTypeString)"


text \<open>The growth of a frame's fields: \<open>g m\<close> is what field \<open>m\<close> has gained.\<close>

definition grown :: "Frame \<Rightarrow> Frame \<Rightarrow> (nat \<Rightarrow> GoValue list) \<Rightarrow> bool" where
  "grown f f' g \<longleftrightarrow>
     length (Fields f') = length (Fields f) \<and>
     (\<forall>m < length (Fields f). field_Values (Fields f' ! m) = field_Values (Fields f ! m) @ g m)"

subsection \<open>Engines and inputs for evaluating the model\<close>

text \<open>
  Stand-ins for the embedded engine, used only where the model is evaluated at a concrete
  input; theorems stated for an arbitrary engine \<open>E\<close> do not depend on them.

  \<open>checked_insert\<close> follows the memory table, which checks a row against the schema
  before it stores it: the row has one value per column, and each value is NULL in a
  nullable column, or of the Go type the column holds, a time only inside the
  \<open>TIMESTAMP\<close> range (times are nanoseconds since the Unix epoch). So a string goes
  into a text column and an int64 into a \<open>bigint\<close> column, while an int8 or a bool is
  refused by the column \<open>convertDataType\<close> gives its field, and so is the time 0. For
  a JSON column, or another type, the stand-in accepts NULL only; nothing below inserts
  into such a column.
\<close>

fun held_type :: "SqlType \<Rightarrow> FieldType option" where
  "held_type (NumberType k) =
     (if k = ''bigint'' then Some FieldTypeInt64
      else if k = ''bigint unsigned'' then Some FieldTypeUint64
      else if k = ''double'' then Some FieldTypeFloat64
      else if k = ''tinyint(1)'' then Some FieldTypeInt8
      else None)"
| "held_type (StringType _) = Some FieldTypeString"
| "held_type (DatetimeType _) = Some FieldTypeTime"
| "held_type JsonType = None"
| "held_type (OtherSqlType _) = None"

fun accepts :: "Column \<Rightarrow> GoValue \<Rightarrow> bool" where
  "accepts col GNil = Nullable col"
| "accepts col (GTime t) =
     (held_type (col_Type col) = Some FieldTypeTime \<and>
      1000000000 \<le> t \<and> t \<le> 2147483647000000000)"
| "accepts col v = (value_type v = held_type (col_Type col))"

definition checked_insert :: "Table \<Rightarrow> Row \<Rightarrow> string + Row" where
  "checked_insert table row =
     (if length row = length (tbl_schema table) \<and> list_all2 accepts (tbl_schema table) row
      then Inr row
      else Inl ''invalid type'')"

text \<open>
  \<open>fixed_answer\<close> answers every statement with one given result and leaves the
  catalogue alone. \<open>table_scan\<close> answers every statement with the schema and the rows
  of one table, in insertion order, or with an error when the catalogue has no such
  table; its rows are rows of a memory table. \<open>create_table_once\<close> is the engine
  at the statement \<open>CREATE TABLE x (a INT)\<close>: where the catalogue has no table
  \<open>x\<close> it adds \<open>created_table\<close> and answers with the one row of an OK result, and
  where it has one it returns an error. \<open>name_and_age\<close> is the engine at
  \<open>SELECT 'sam' AS name, 300 AS age;\<close>, the statement of the repository's second test
  with a larger number: the engine types an integer literal by the smallest Go integer
  that holds it, so 40 is an int8 and 300 an int16.
\<close>

definition fixed_answer :: "Schema \<Rightarrow> RowIter \<Rightarrow> Engine" where
  "fixed_answer schema iter =
     \<lparr>Insert = checked_insert, Query = (\<lambda>db query. (db, Inr (schema, iter)))\<rparr>"

definition table_scan :: "string \<Rightarrow> Engine" where
  "table_scan tn =
     \<lparr>Insert = checked_insert,
      Query = (\<lambda>db query.
        (db, case tables db tn of
               None \<Rightarrow> Inl (''table not found: '' @ tn)
             | Some t \<Rightarrow> Inr (tbl_schema t, map Stored (tbl_rows t))))\<rparr>"

definition created_table :: Table where
  "created_table =
     \<lparr>tbl_name = ''x'',
      tbl_schema = [\<lparr>col_Name = ''a'', col_Type = NumberType ''int'', Nullable = True,
                     Source = ''x''\<rparr>],
      tbl_rows = []\<rparr>"

definition create_table_once :: Engine where
  "create_table_once =
     \<lparr>Insert = checked_insert,
      Query = (\<lambda>db query.
        (case tables db ''x'' of
           None \<Rightarrow>
             (AddTable db ''x'' created_table,
              Inr ([\<lparr>col_Name = ''__ok_result__'', col_Type = Int64, Nullable = False,
                     Source = ''''\<rparr>],
                   [Computed [GOther ''types.OkResult'']]))
         | Some t \<Rightarrow> (db, Inl ''table with name x already exists'')))\<rparr>"

definition name_and_age :: Engine where
  "name_and_age =
     fixed_answer
       [\<lparr>col_Name = ''name'', col_Type = StringType ''longtext'', Nullable = False,
          Source = ''''\<rparr>,
        \<lparr>col_Name = ''age'', col_Type = NumberType ''smallint'', Nullable = False,
          Source = ''''\<rparr>]
       [Computed [GString ''sam'', GInt16 300]]"

definition text_column :: "string \<Rightarrow> Column" where
  "text_column n = \<lparr>col_Name = n, col_Type = Text, Nullable = True, Source = ''''\<rparr>"

text \<open>\<open>var frame data.Frame\<close>: the zero frame a caller passes as output frame.\<close>

definition new_frame :: Frame where
  "new_frame = \<lparr>Name = '''', Fields = []\<rparr>"

text \<open>
  Inputs. \<open>label_frame\<close> is the input frame of the repository's test
  "query all rows from single input frame", and \<open>label_table\<close> the table it is
  written to; \<open>no_rows_frame\<close> is a frame of one string field without rows, and
  \<open>no_rows_table\<close> its table; \<open>raw_frame\<close> has a field whose tag
  \<open>convertDataType\<close> does not name.
\<close>

definition label_frame :: Frame where
  "label_frame =
     \<lparr>Name = ''inputFrameRefId'',
      Fields = [\<lparr>field_Name = ''OSS Projects with Typos'', field_Type = FieldTypeString,
                 field_Values = [GString ''Garfana'', GString ''Pormetheus'']\<rparr>]\<rparr>"

definition label_table :: "string \<Rightarrow> Table" where
  "label_table tn =
     \<lparr>tbl_name = tn,
      tbl_schema = [\<lparr>col_Name = ''OSS Projects with Typos'', col_Type = StringType ''text'',
                     Nullable = True, Source = tn\<rparr>],
      tbl_rows = [[GString ''Garfana''], [GString ''Pormetheus'']]\<rparr>"

definition no_rows_frame :: Frame where
  "no_rows_frame =
     \<lparr>Name = ''a'',
      Fields = [\<lparr>field_Name = ''label'', field_Type = FieldTypeString, field_Values = []\<rparr>]\<rparr>"

definition no_rows_table :: "string \<Rightarrow> Table" where
  "no_rows_table tn =
     \<lparr>tbl_name = tn,
      tbl_schema = [\<lparr>col_Name = ''label'', col_Type = StringType ''text'',
                     Nullable = True, Source = tn\<rparr>],
      tbl_rows = []\<rparr>"

definition raw_frame :: Frame where
  "raw_frame =
     \<lparr>Name = ''in'',
      Fields = [\<lparr>field_Name = ''j'', field_Type = FieldTypeOther ''json.RawMessage'',
                 field_Values = []\<rparr>]\<rparr>"

text \<open>The output frame the call at \<open>name_and_age\<close> leaves.\<close>

definition name_and_age_frame :: Frame where
  "name_and_age_frame =
     \<lparr>Name = ''out'',
      Fields = [\<lparr>field_Name = ''name'', field_Type = FieldTypeString,
                 field_Values = [GString ''sam'']\<rparr>,
                \<lparr>field_Name = ''age'', field_Type = FieldTypeInt64, field_Values = []\<rparr>]\<rparr>"

section \<open>Properties\<close>

subsection \<open>Sequencing\<close>

lemma and_then_simps [simp]:
  "and_then (Success, s) k = k s"
  "and_then (Failure e, s) k = (Failure e, s)"
  "and_then (Panic p, s) k = (Panic p, s)"
  by (simp_all add: and_then_def)


lemma and_then_inv:
  assumes "P (snd r)" "\<And>s. P s \<Longrightarrow> P (snd (k s))"
  shows "P (snd (and_then r k))"
  using assms by (cases r; cases "fst r") (auto simp: and_then_def)

subsection \<open>The row loop, item by item\<close>

lemma read_rows_Computed:
  "read_rows schema (Computed row # rest) f =
     and_then (append_values schema 0 row f) (read_rows schema rest)"
  by simp

lemma read_rows_Stored: "read_rows schema (Stored row # rest) f = (Panic NextPanic, f)"
  by simp

lemma read_rows_Broken:
  "read_rows schema (Broken err # rest) f = (Failure (ReadRowError err), f)"
  by simp

lemmas read_rows_item = read_rows_Computed read_rows_Stored read_rows_Broken

lemma read_rows_inv:
  assumes "\<And>row g. P g \<Longrightarrow> P (snd (append_values schema 0 row g))"
  shows "P f \<Longrightarrow> P (snd (read_rows schema iter f))"
proof (induction iter arbitrary: f)
  case Nil
  then show ?case by simp
next
  case (Cons item rest)
  show ?case
  proof (cases item)
    case (Computed row)
    show ?thesis
      unfolding Computed read_rows_Computed
      by (rule and_then_inv [where P = P]) (simp_all add: assms Cons)
  next
    case (Stored row)
    with Cons.prems show ?thesis by simp
  next
    case (Broken err)
    with Cons.prems show ?thesis by simp
  qed
qed

subsection \<open>What decoding does to the output frame\<close>

lemma make_fields_Name: "Name (snd (make_fields schema f)) = Name f"
  by (induction schema arbitrary: f) (auto split: SqlType.splits)

lemma make_fields_names:
  "fst (make_fields schema f) = Success \<Longrightarrow>
   map field_Name (Fields (snd (make_fields schema f))) =
     map field_Name (Fields f) @ map col_Name schema"
  by (induction schema arbitrary: f) (auto split: SqlType.splits simp: NewField_def)

lemma append_at_Name: "Name (snd (append_at f i v)) = Name f"
  by (auto simp: append_at_def split: sum.splits)

lemma append_at_names:
  "map field_Name (Fields (snd (append_at f i v))) = map field_Name (Fields f)"
  by (auto simp: append_at_def Append_def map_update list_update_same_conv
           split: sum.splits if_splits)

lemma append_value_Name: "Name (snd (append_value schema i v f)) = Name f"
  by (cases v) (simp_all add: append_at_Name unsupported_value_def)

lemma append_value_names:
  "map field_Name (Fields (snd (append_value schema i v f))) = map field_Name (Fields f)"
  by (cases v) (simp_all add: append_at_names unsupported_value_def)

lemma append_values_Name: "Name (snd (append_values schema i row f)) = Name f"
proof (induction row arbitrary: i f)
  case Nil
  show ?case by simp
next
  case (Cons v vs)
  show ?case
    unfolding append_values.simps
    by (rule and_then_inv [where P = "\<lambda>s. Name s = Name f"])
       (simp_all add: append_value_Name Cons.IH)
qed

lemma append_values_names:
  "map field_Name (Fields (snd (append_values schema i row f))) = map field_Name (Fields f)"
proof (induction row arbitrary: i f)
  case Nil
  show ?case by simp
next
  case (Cons v vs)
  show ?case
    unfolding append_values.simps
    by (rule and_then_inv
          [where P = "\<lambda>s. map field_Name (Fields s) = map field_Name (Fields f)"])
       (simp_all add: append_value_names Cons.IH)
qed

lemma read_rows_Name: "Name (snd (read_rows schema iter f)) = Name f"
  by (rule read_rows_inv [where P = "\<lambda>s. Name s = Name f"])
     (simp_all add: append_values_Name)

lemma read_rows_names:
  "map field_Name (Fields (snd (read_rows schema iter f))) = map field_Name (Fields f)"
  by (rule read_rows_inv [where P = "\<lambda>s. map field_Name (Fields s) = map field_Name (Fields f)"])
     (simp_all add: append_values_names)

lemma convertToDataFrame_Name: "Name (snd (convertToDataFrame iter schema f)) = Name f"
  unfolding convertToDataFrame_def
  by (rule and_then_inv [where P = "\<lambda>s. Name s = Name f"])
     (simp_all add: make_fields_Name read_rows_Name)

lemma QueryFramesInto_Name:
  "Name (fst (snd (QueryFramesInto E tableName query frames f db))) = tableName"
  by (simp add: QueryFramesInto_def Let_def convertToDataFrame_Name
           split: outcome.splits prod.splits sum.splits)

subsection \<open>A NULL in a result row\<close>




subsection \<open>What materialisation does to the catalogue\<close>

lemma insert_rows_outcome:
  "fst (insert_rows E frame i n table) = Failure e \<Longrightarrow> \<exists>j err. e = InsertRowError j err"
  by (induction n arbitrary: i table) (auto split: sum.splits)

lemma insert_rows_schema:
  "tbl_schema (snd (insert_rows E frame i n table)) = tbl_schema table"
  by (induction n arbitrary: i table) (auto split: sum.splits)

lemma writeDataframeToDb_None [simp]:
  "writeDataframeToDb E tn None db = (Failure NilFrame, db)"
  by (simp add: writeDataframeToDb_def)

lemma writeDataframeToDb_Some:
  "writeDataframeToDb E tn (Some fr) db =
     (fst (insert_rows E fr 0 (Rows fr) (NewTable tn (frame_schema tn fr))),
      db\<lparr>tables := (tables db)(tn \<mapsto>
            snd (insert_rows E fr 0 (Rows fr) (NewTable tn (frame_schema tn fr))))\<rparr>)"
  by (simp add: writeDataframeToDb_def Let_def AddTable_def)

lemma writeDataframeToDb_outcome:
  "fst (writeDataframeToDb E tn frame db) = Failure e \<Longrightarrow>
   e = NilFrame \<or> (\<exists>j err. e = InsertRowError j err)"
  by (cases frame) (auto simp: writeDataframeToDb_Some dest: insert_rows_outcome)

lemma writeDataframeToDb_other:
  "k \<noteq> tn \<Longrightarrow> tables (snd (writeDataframeToDb E tn frame db)) k = tables db k"
  by (cases frame) (simp_all add: writeDataframeToDb_Some)

lemma writeDataframeToDb_db_name:
  "db_name (snd (writeDataframeToDb E tn frame db)) = db_name db"
  by (cases frame) (simp_all add: writeDataframeToDb_Some)

lemma write_frames_outcome:
  "fst (write_frames E tn frames db) = Failure e \<Longrightarrow>
   e = NilFrame \<or> (\<exists>j err. e = InsertRowError j err)"
proof (induction frames arbitrary: db)
  case Nil
  then show ?case by simp
next
  case (Cons fo frames)
  show ?case
  proof (cases "fst (writeDataframeToDb E tn fo db)")
    case Success
    with Cons.prems have "fst (write_frames E tn frames (snd (writeDataframeToDb E tn fo db))) = Failure e"
      by (simp add: and_then_def)
    then show ?thesis by (rule Cons.IH)
  next
    case (Failure e')
    with Cons.prems have "e' = e" by (simp add: and_then_def)
    with Failure show ?thesis by (auto dest: writeDataframeToDb_outcome)
  next
    case (Panic p)
    with Cons.prems show ?thesis by (simp add: and_then_def)
  qed
qed

lemma write_frames_other:
  "k \<noteq> tn \<Longrightarrow> tables (snd (write_frames E tn frames db)) k = tables db k"
proof (induction frames arbitrary: db)
  case Nil
  show ?case by simp
next
  case (Cons fo frames)
  show ?case
    unfolding write_frames.simps
    by (rule and_then_inv [where P = "\<lambda>s. tables s k = tables db k"])
       (simp_all add: writeDataframeToDb_other Cons)
qed

lemma write_frames_db_name:
  "db_name (snd (write_frames E tn frames db)) = db_name db"
proof (induction frames arbitrary: db)
  case Nil
  show ?case by simp
next
  case (Cons fo frames)
  show ?case
    unfolding write_frames.simps
    by (rule and_then_inv [where P = "\<lambda>s. db_name s = db_name db"])
       (simp_all add: writeDataframeToDb_db_name Cons)
qed

lemma same_off_table:
  fixes d d' :: Database
  assumes "db_name d = db_name d'" and "\<And>k. k \<noteq> tn \<Longrightarrow> tables d k = tables d' k"
  shows "d\<lparr>tables := (tables d)(tn \<mapsto> T)\<rparr> = d'\<lparr>tables := (tables d')(tn \<mapsto> T)\<rparr>"
  using assms by (intro Database.equality) (auto simp: fun_eq_iff)

lemma write_frames_same_off_table:
  fixes d d' :: Database
  assumes "db_name d = db_name d'" and "\<And>k. k \<noteq> tn \<Longrightarrow> tables d k = tables d' k"
  shows "fst (write_frames E tn frames d) = fst (write_frames E tn frames d') \<and>
         (snd (write_frames E tn frames d) = d \<and> snd (write_frames E tn frames d') = d' \<or>
          snd (write_frames E tn frames d) = snd (write_frames E tn frames d'))"
proof (cases frames)
  case Nil
  then show ?thesis by simp
next
  case (Cons fo rest)
  show ?thesis
  proof (cases fo)
    case None
    with Cons show ?thesis by simp
  next
    case (Some fr)
    have "snd (writeDataframeToDb E tn (Some fr) d) = snd (writeDataframeToDb E tn (Some fr) d')"
      by (simp add: writeDataframeToDb_Some same_off_table [OF assms])
    moreover have "fst (writeDataframeToDb E tn (Some fr) d) = fst (writeDataframeToDb E tn (Some fr) d')"
      by (simp add: writeDataframeToDb_Some)
    ultimately have "writeDataframeToDb E tn (Some fr) d = writeDataframeToDb E tn (Some fr) d'"
      by (simp add: prod_eq_iff)
    with Cons Some show ?thesis by simp
  qed
qed

lemma write_frames_again:
  "write_frames E tn frames (snd (write_frames E tn frames d)) = write_frames E tn frames d"
proof -
  let ?d1 = "snd (write_frames E tn frames d)"
  have "db_name d = db_name ?d1"
    by (simp add: write_frames_db_name)
  moreover have "\<And>k. k \<noteq> tn \<Longrightarrow> tables d k = tables ?d1 k"
    by (simp add: write_frames_other)
  ultimately have
    "fst (write_frames E tn frames d) = fst (write_frames E tn frames ?d1) \<and>
     (snd (write_frames E tn frames d) = d \<and> snd (write_frames E tn frames ?d1) = ?d1 \<or>
      snd (write_frames E tn frames d) = snd (write_frames E tn frames ?d1))"
    by (rule write_frames_same_off_table)
  then show ?thesis
    by (auto simp: prod_eq_iff)
qed

subsection \<open>How the first loop of decoding ends\<close>

lemma make_fields_outcome:
  "fst (make_fields schema f) = Failure e \<Longrightarrow> \<exists>n ty. e = UnsupportedColumnType n ty"
  by (induction schema arbitrary: f) (auto split: SqlType.splits)

lemma make_fields_no_panic: "fst (make_fields schema f) \<noteq> Panic p"
  by (induction schema arbitrary: f) (auto split: SqlType.splits)

subsection \<open>What decoding appends to the fields\<close>

lemma column_values_Nil [simp]: "column_values m [] = []"
  by (simp add: column_values_def)

lemma column_values_Cons:
  "column_values m (row # rows) =
     (if m < length row then [widen (row ! m)] else []) @ column_values m rows"
  by (simp add: column_values_def)

lemma column_values_append:
  "column_values m (xs @ ys) = column_values m xs @ column_values m ys"
  by (simp add: column_values_def)

lemma column_values_take:
  "j \<le> length row \<Longrightarrow>
   column_values m [take j row] = (if m < j then [widen (row ! m)] else [])"
  by (simp add: column_values_def)

lemma grown_refl: "grown f f (\<lambda>m. [])"
  by (simp add: grown_def)

lemma grown_trans:
  "grown f f1 g1 \<Longrightarrow> grown f1 f2 g2 \<Longrightarrow> grown f f2 (\<lambda>m. g1 m @ g2 m)"
  by (simp add: grown_def)

lemma grown_cong:
  "grown f f' g \<Longrightarrow> (\<And>m. m < length (Fields f) \<Longrightarrow> g m = h m) \<Longrightarrow> grown f f' h"
  by (simp add: grown_def)

lemma append_at_no_Failure: "fst (append_at f i v) \<noteq> Failure e"
  by (simp add: append_at_def split: sum.splits)

lemma append_at_not_Success: "fst (append_at f i v) \<noteq> Success \<Longrightarrow> snd (append_at f i v) = f"
  by (simp add: append_at_def split: sum.splits if_splits)

lemma append_at_Success:
  assumes "append_at f i v = (Success, f')"
  shows "grown f f' (\<lambda>m. if m = i then [v] else [])"
    and "i < length (Fields f)"
    and "value_type v = Some (field_Type (Fields f ! i))"
  using assms
  by (auto simp: append_at_def Append_def grown_def nth_list_update
           split: sum.splits if_splits)

lemma append_value_decodable:
  "decodable v \<Longrightarrow> append_value schema i v f = append_at f i (widen v)"
  by (cases v) simp_all

lemma append_value_undecodable:
  "\<not> decodable v \<Longrightarrow> append_value schema i v f = unsupported_value schema f i v"
  by (cases v) simp_all

lemma append_values_Success:
  "append_values schema i0 row f = (Success, f') \<Longrightarrow>
   grown f f' (\<lambda>m. if i0 \<le> m \<and> m < i0 + length row then [widen (row ! (m - i0))] else [])"
proof (induction row arbitrary: i0 f)
  case Nil
  then show ?case by (simp add: grown_def)
next
  case (Cons v vs)
  obtain r1 f1 where a: "append_value schema i0 v f = (r1, f1)"
    by (cases "append_value schema i0 v f")
  from Cons.prems a have r1: "r1 = Success"
    by (cases r1) simp_all
  with Cons.prems a have rest: "append_values schema (Suc i0) vs f1 = (Success, f')"
    by simp
  have dec: "decodable v"
  proof (rule ccontr)
    assume "\<not> decodable v"
    with a r1 show False
      by (simp add: append_value_undecodable unsupported_value_def split: if_splits)
  qed
  with a r1 have "append_at f i0 (widen v) = (Success, f1)"
    by (simp add: append_value_decodable)
  then have g1: "grown f f1 (\<lambda>m. if m = i0 then [widen v] else [])"
    by (rule append_at_Success)
  have g2: "grown f1 f' (\<lambda>m. if Suc i0 \<le> m \<and> m < Suc i0 + length vs
                                then [widen (vs ! (m - Suc i0))] else [])"
    using rest by (rule Cons.IH)
  show ?case
    by (rule grown_cong [OF grown_trans [OF g1 g2]]) (auto simp: nth_Cons')
qed

lemma append_values_Failure:
  "append_values schema i0 row f = (Failure e, f') \<Longrightarrow>
   \<exists>k < length row. \<not> decodable (row ! k) \<and> i0 + k < length schema \<and>
     e = UnsupportedValueType (col_Name (schema ! (i0 + k))) (type_name (row ! k)) \<and>
     grown f f' (\<lambda>m. if i0 \<le> m \<and> m < i0 + k then [widen (row ! (m - i0))] else [])"
proof (induction row arbitrary: i0 f)
  case Nil
  then show ?case by simp
next
  case (Cons v vs)
  show ?case
  proof (cases "decodable v")
    case False
    with Cons.prems have u: "unsupported_value schema f i0 v = (Failure e, f')"
      by (simp add: append_value_undecodable unsupported_value_def split: if_splits)
    then have "i0 < length schema" "f' = f"
      "e = UnsupportedValueType (col_Name (schema ! i0)) (type_name v)"
      by (auto simp: unsupported_value_def split: if_splits)
    with False show ?thesis
      by (intro exI [of _ 0]) (simp add: grown_def)
  next
    case True
    obtain r1 f1 where a: "append_at f i0 (widen v) = (r1, f1)"
      by (cases "append_at f i0 (widen v)")
    have r1: "r1 = Success"
    proof (cases r1)
      case Success
      then show ?thesis .
    next
      case (Failure e')
      with a append_at_no_Failure [of f i0 "widen v" e'] show ?thesis by simp
    next
      case (Panic p)
      with Cons.prems True a show ?thesis
        by (simp add: append_value_decodable)
    qed
    with Cons.prems True a have rest: "append_values schema (Suc i0) vs f1 = (Failure e, f')"
      by (simp add: append_value_decodable)
    from a r1 have g1: "grown f f1 (\<lambda>m. if m = i0 then [widen v] else [])"
      by (auto intro: append_at_Success)
    from Cons.IH [OF rest] obtain k where k: "k < length vs" "\<not> decodable (vs ! k)"
      "Suc i0 + k < length schema"
      "e = UnsupportedValueType (col_Name (schema ! (Suc i0 + k))) (type_name (vs ! k))"
      and g2: "grown f1 f' (\<lambda>m. if Suc i0 \<le> m \<and> m < Suc i0 + k
                                   then [widen (vs ! (m - Suc i0))] else [])"
      by blast
    have "grown f f' (\<lambda>m. if i0 \<le> m \<and> m < i0 + Suc k
                            then [widen ((v # vs) ! (m - i0))] else [])"
      by (rule grown_cong [OF grown_trans [OF g1 g2]]) (auto simp: nth_Cons')
    with k show ?thesis
      by (intro exI [of _ "Suc k"]) simp
  qed
qed

lemma append_values_Success_column:
  assumes "append_values schema 0 row f = (Success, f')"
  shows "grown f f' (\<lambda>m. column_values m [row])"
  by (rule grown_cong [OF append_values_Success [OF assms]]) (simp add: column_values_Cons)

lemma append_values_Failure_column:
  assumes "append_values schema 0 row f = (Failure e, f')"
  shows "\<exists>j < length row. \<not> decodable (row ! j) \<and> j < length schema \<and>
           e = UnsupportedValueType (col_Name (schema ! j)) (type_name (row ! j)) \<and>
           grown f f' (\<lambda>m. column_values m [take j row])"
proof -
  from append_values_Failure [OF assms] obtain k where k: "k < length row"
    "\<not> decodable (row ! k)" "k < length schema"
    "e = UnsupportedValueType (col_Name (schema ! k)) (type_name (row ! k))"
    and g: "grown f f' (\<lambda>m. if 0 \<le> m \<and> m < 0 + k then [widen (row ! (m - 0))] else [])"
    by auto
  have "grown f f' (\<lambda>m. column_values m [take k row])"
    using k(1) by (intro grown_cong [OF g]) (simp add: column_values_take)
  with k show ?thesis by blast
qed

lemma read_rows_Failure:
  "read_rows schema iter f = (Failure (UnsupportedValueType c t), f') \<Longrightarrow>
   \<exists>rows row j.
     take (Suc (length rows)) iter = map Computed rows @ [Computed row] \<and>
     j < length row \<and> \<not> decodable (row ! j) \<and> j < length schema \<and>
     c = col_Name (schema ! j) \<and> t = type_name (row ! j) \<and>
     grown f f' (\<lambda>m. column_values m (rows @ [take j row]))"
proof (induction iter arbitrary: f)
  case Nil
  then show ?case by simp
next
  case (Cons item rest)
  show ?case
  proof (cases item)
    case (Stored row)
    with Cons.prems show ?thesis by simp
  next
    case (Broken err)
    with Cons.prems show ?thesis by simp
  next
    case (Computed row)
    obtain r1 f1 where a: "append_values schema 0 row f = (r1, f1)"
      by (cases "append_values schema 0 row f")
    show ?thesis
    proof (cases r1)
      case (Panic p)
      with Cons.prems Computed a show ?thesis by simp
    next
      case (Failure e)
      with Cons.prems Computed a have e: "e = UnsupportedValueType c t" and f1: "f1 = f'"
        by simp_all
      from append_values_Failure_column [OF a [unfolded Failure e f1]]
      obtain j where "j < length row" "\<not> decodable (row ! j)" "j < length schema"
        "c = col_Name (schema ! j)" "t = type_name (row ! j)"
        "grown f f' (\<lambda>m. column_values m [take j row])"
        by auto
      with Computed show ?thesis
        by (intro exI [of _ "[]"] exI [of _ row] exI [of _ j]) simp
    next
      case Success
      with Cons.prems Computed a
      have rest: "read_rows schema rest f1 = (Failure (UnsupportedValueType c t), f')"
        by simp
      from a Success have g1: "grown f f1 (\<lambda>m. column_values m [row])"
        by (auto intro: append_values_Success_column)
      from Cons.IH [OF rest] obtain rows row' j where
        tk: "take (Suc (length rows)) rest = map Computed rows @ [Computed row']"
        and j: "j < length row'" "\<not> decodable (row' ! j)" "j < length schema"
          "c = col_Name (schema ! j)" "t = type_name (row' ! j)"
        and g2: "grown f1 f' (\<lambda>m. column_values m (rows @ [take j row']))"
        by blast
      have "grown f f' (\<lambda>m. column_values m ((row # rows) @ [take j row']))"
        by (rule grown_cong [OF grown_trans [OF g1 g2]])
           (simp add: column_values_Cons column_values_append)
      with tk j Computed show ?thesis
        by (intro exI [of _ "row # rows"] exI [of _ row'] exI [of _ j]) simp
    qed
  qed
qed

lemma make_fields_Success:
  "fst (make_fields schema f) = Success \<Longrightarrow>
   Fields (snd (make_fields schema f)) =
     Fields f @ map (\<lambda>col. NewField (col_Name col) (column_field_type col)) schema"
  by (induction schema arbitrary: f) (auto split: SqlType.splits)


subsection \<open>Rows that fit\<close>









subsection \<open>Decoding up to a NULL\<close>


subsection \<open>Unfolding the model at a concrete input\<close>

lemmas eval_defs =
  QueryFramesInto_def table_scan_def fixed_answer_def create_table_once_def
  checked_insert_def writeDataframeToDb_def
  frame_schema_def Rows_def Len_def At_def NewTable_def AddTable_def
  convertToDataFrame_def new_frame_def NewField_def append_at_def Append_def
  unsupported_value_def NewInMemoryDB_def NewDatabase_def dbName_def Let_def
  Int64_def Uint64_def Float64_def Text_def Boolean_def Timestamp_def JSON_def
  text_column_def

section \<open>The claims\<close>

text \<open>
  C1, at the input of the repository's own test "query all rows from single input
  frame": the input frame is named \<open>inputFrameRefId\<close>, the call's name argument is
  \<open>sqlExpressionRefId\<close>, and the statement reads \<open>inputFrameRefId\<close>. The loop
  over the input frames passes \<open>tableName\<close>, the output name, to
  \<open>writeDataframeToDb\<close>, never the frame's own name: the catalogue ends with the
  frame's rows in a table \<open>sqlExpressionRefId\<close> and with no table
  \<open>inputFrameRefId\<close>, so an engine that looks the statement's table up fails.
\<close>

theorem table_named_by_output_name:
  "QueryFramesInto (table_scan ''inputFrameRefId'') ''sqlExpressionRefId''
     ''SELECT * FROM inputFrameRefId LIMIT 1;'' [Some label_frame] new_frame NewInMemoryDB =
   (Failure (QueryError ''table not found: inputFrameRefId''),
    \<lparr>Name = ''sqlExpressionRefId'', Fields = []\<rparr>,
    \<lparr>inMemoryDb = \<lparr>db_name = ''mydb'',
                    tables = [''sqlExpressionRefId'' \<mapsto> label_table ''sqlExpressionRefId'']\<rparr>\<rparr>)"
  by (simp add: eval_defs label_frame_def label_table_def)

text \<open>
  C2, as the code has it. \<open>convertDataType\<close> is total: a tag outside the thirteen it
  names is mapped to the JSON column type. So a frame with such a field is given a table,
  whose schema holds a nullable JSON column named after the field, and the only error
  \<open>writeDataframeToDb\<close> can return for a non-nil frame is that of a row the table
  refuses to insert.
\<close>

theorem unsupported_tag_defines_JSON_column:
  assumes "field \<in> set (Fields fr)" and "field_Type field = FieldTypeOther t"
  shows "(\<exists>table. tables (snd (writeDataframeToDb E tableName (Some fr) db)) tableName = Some table \<and>
            \<lparr>col_Name = field_Name field, col_Type = JSON, Nullable = True, Source = tableName\<rparr>
              \<in> set (tbl_schema table)) \<and>
         (\<forall>e. fst (writeDataframeToDb E tableName (Some fr) db) = Failure e \<longrightarrow>
              (\<exists>i err. e = InsertRowError i err))"
proof
  have "\<lparr>col_Name = field_Name field, col_Type = JSON, Nullable = True, Source = tableName\<rparr>
          \<in> set (frame_schema tableName fr)"
    using assms by (force simp: frame_schema_def)
  then show "\<exists>table. tables (snd (writeDataframeToDb E tableName (Some fr) db)) tableName = Some table \<and>
            \<lparr>col_Name = field_Name field, col_Type = JSON, Nullable = True, Source = tableName\<rparr>
              \<in> set (tbl_schema table)"
    by (simp add: writeDataframeToDb_Some insert_rows_schema NewTable_def)
next
  show "\<forall>e. fst (writeDataframeToDb E tableName (Some fr) db) = Failure e \<longrightarrow>
              (\<exists>i err. e = InsertRowError i err)"
    by (auto simp: writeDataframeToDb_Some dest: insert_rows_outcome)
qed

theorem unsupported_tag_defines_JSON_column_witness:
  "tables (snd (writeDataframeToDb (table_scan ''out'') ''out'' (Some raw_frame)
             (inMemoryDb NewInMemoryDB))) ''out'' =
     Some \<lparr>tbl_name = ''out'',
           tbl_schema = [\<lparr>col_Name = ''j'', col_Type = JsonType, Nullable = True,
                          Source = ''out''\<rparr>],
           tbl_rows = []\<rparr> \<and>
   fst (writeDataframeToDb (table_scan ''out'') ''out'' (Some raw_frame)
          (inMemoryDb NewInMemoryDB)) = Success"
  using unsupported_tag_defines_JSON_column
          [of "\<lparr>field_Name = ''j'', field_Type = FieldTypeOther ''json.RawMessage'',
                field_Values = []\<rparr>" raw_frame "''json.RawMessage''"
              "table_scan ''out''" "''out''" "inMemoryDb NewInMemoryDB"]
  by (simp add: eval_defs raw_frame_def)

text \<open>
  C2 as stated fails: with an input frame whose only field has a tag outside the
  enumeration (and no rows), the call does not fail at all; the statement is executed and
  its result decoded.
\<close>

theorem unsupported_tag_counterexample:
  "fst (QueryFramesInto (fixed_answer [text_column ''n''] [Computed [GString ''1'']]) ''out''
          ''SELECT '1' AS n;'' [Some raw_frame] new_frame NewInMemoryDB) = Success"
  by (simp add: eval_defs raw_frame_def)

text \<open>
  C3, at the round trip the repository's test is about: a frame of one string field,
  written to the table the statement reads, and \<open>SELECT *\<close> from that table. The frame
  is materialised and the statement is executed, and the result builder makes the string
  field; but the row loop asks for each row with \<open>mysql.NewEmptyContext()\<close>, a context
  that has not the memory engine's session, and the first \<open>iter.Next\<close> on the rows of
  the table panics. No value comes back: the string field stays empty.
\<close>

theorem select_star_round_trip_panics:
  "QueryFramesInto (table_scan ''inputFrameRefId'') ''inputFrameRefId''
     ''SELECT * FROM inputFrameRefId'' [Some label_frame] new_frame NewInMemoryDB =
   (Panic NextPanic,
    \<lparr>Name = ''inputFrameRefId'',
     Fields = [\<lparr>field_Name = ''OSS Projects with Typos'', field_Type = FieldTypeString,
                field_Values = []\<rparr>]\<rparr>,
    \<lparr>inMemoryDb = \<lparr>db_name = ''mydb'',
                    tables = [''inputFrameRefId'' \<mapsto> label_table ''inputFrameRefId'']\<rparr>\<rparr>)"
  by (simp add: eval_defs label_frame_def label_table_def)

text \<open>
  C4, as the code has it. \<open>QueryFramesInto\<close> decodes into the frame the caller
  passed. When the call returns the error of an undecodable value, the engine had
  answered with a schema and rows, some rows were read and decoded in full, and the error
  names the column and the type of the first value of the next row that the switch has no
  case for. The caller's frame then has the output name; its fields are the ones it came
  with, followed by one field for every column of the result, named after the column;
  and field \<open>i\<close>, counted from the first field of the frame, has gained, in order, the
  decoded value at position \<open>i\<close> of every row read in full and of the failing row up
  to the failing value. What decoding built before the failure stays in the caller's
  frame.
\<close>

theorem decode_failure_leaves_partial_frame:
  assumes "QueryFramesInto E tableName query frames f db =
             (Failure (UnsupportedValueType c t), f', db')"
  shows "\<exists>d schema iter rows row j.
           Query E (snd (write_frames E tableName frames (inMemoryDb db))) query =
             (d, Inr (schema, iter)) \<and>
           take (Suc (length rows)) iter = map Computed rows @ [Computed row] \<and>
           j < length row \<and> j < length schema \<and> \<not> decodable (row ! j) \<and>
           c = col_Name (schema ! j) \<and> t = type_name (row ! j) \<and>
           Name f' = tableName \<and>
           map field_Name (Fields f') = map field_Name (Fields f) @ map col_Name schema \<and>
           (\<forall>i < length (Fields f) + length schema.
              field_Values (Fields f' ! i) =
                (if i < length (Fields f) then field_Values (Fields f ! i) else []) @
                column_values i (rows @ [take j row]))"
proof -
  let ?w = "write_frames E tableName frames (inMemoryDb db)"
  let ?f1 = "f\<lparr>Name := tableName\<rparr>"
  from assms have "f' = fst (snd (QueryFramesInto E tableName query frames f db))"
    by simp
  then have name: "Name f' = tableName"
    by (simp add: QueryFramesInto_Name)
  have w: "fst ?w = Success"
  proof (cases "fst ?w")
    case Success
    then show ?thesis .
  next
    case (Failure e)
    with assms have "e = UnsupportedValueType c t"
      by (simp add: QueryFramesInto_def Let_def)
    with Failure show ?thesis
      by (auto dest: write_frames_outcome)
  next
    case (Panic p)
    with assms show ?thesis
      by (simp add: QueryFramesInto_def Let_def)
  qed
  obtain d res where q: "Query E (snd ?w) query = (d, res)"
    by (cases "Query E (snd ?w) query")
  show ?thesis
  proof (cases res)
    case (Inl err)
    with assms w q show ?thesis
      by (simp add: QueryFramesInto_def Let_def)
  next
    case (Inr si)
    obtain schema iter where si: "si = (schema, iter)"
      by (cases si)
    from assms w q Inr si
    have c: "convertToDataFrame iter schema ?f1 = (Failure (UnsupportedValueType c t), f')"
      by (simp add: QueryFramesInto_def Let_def prod_eq_iff)
    let ?g = "snd (make_fields schema ?f1)"
    have m: "fst (make_fields schema ?f1) = Success"
    proof (cases "fst (make_fields schema ?f1)")
      case Success
      then show ?thesis .
    next
      case (Failure e)
      with c have "e = UnsupportedValueType c t"
        by (simp add: convertToDataFrame_def and_then_def)
      with Failure show ?thesis
        by (auto dest: make_fields_outcome)
    next
      case (Panic p)
      then show ?thesis
        by (simp add: make_fields_no_panic)
    qed
    with c have r: "read_rows schema iter ?g = (Failure (UnsupportedValueType c t), f')"
      by (simp add: convertToDataFrame_def and_then_def)
    have flds: "Fields ?g =
        Fields f @ map (\<lambda>col. NewField (col_Name col) (column_field_type col)) schema"
      using make_fields_Success [OF m] by simp
    from r have "f' = snd (read_rows schema iter ?g)"
      by simp
    then have names: "map field_Name (Fields f') = map field_Name (Fields f) @ map col_Name schema"
      using m by (simp add: read_rows_names make_fields_names)
    from read_rows_Failure [OF r] obtain rows row j where
      tk: "take (Suc (length rows)) iter = map Computed rows @ [Computed row]"
      and j: "j < length row" "\<not> decodable (row ! j)" "j < length schema"
        "c = col_Name (schema ! j)" "t = type_name (row ! j)"
      and g: "grown ?g f' (\<lambda>m. column_values m (rows @ [take j row]))"
      by blast
    have vals: "\<forall>i < length (Fields f) + length schema.
              field_Values (Fields f' ! i) =
                (if i < length (Fields f) then field_Values (Fields f ! i) else []) @
                column_values i (rows @ [take j row])"
    proof (intro allI impI)
      fix i
      assume i: "i < length (Fields f) + length schema"
      then have "i < length (Fields ?g)"
        by (simp add: flds)
      with g have "field_Values (Fields f' ! i) =
          field_Values (Fields ?g ! i) @ column_values i (rows @ [take j row])"
        by (simp add: grown_def)
      moreover have "field_Values (Fields ?g ! i) =
          (if i < length (Fields f) then field_Values (Fields f ! i) else [])"
        using i by (simp add: flds nth_append NewField_def)
      ultimately show "field_Values (Fields f' ! i) =
                (if i < length (Fields f) then field_Values (Fields f ! i) else []) @
                column_values i (rows @ [take j row])"
        by simp
    qed
    from q Inr si tk j name names vals show ?thesis
      by blast
  qed
qed

theorem decode_failure_leaves_partial_frame_witness:
  "\<exists>d schema iter rows row j.
     Query name_and_age (snd (write_frames name_and_age ''out'' [] (inMemoryDb NewInMemoryDB)))
       ''SELECT 'sam' AS name, 300 AS age;'' = (d, Inr (schema, iter)) \<and>
     take (Suc (length rows)) iter = map Computed rows @ [Computed row] \<and>
     j < length row \<and> j < length schema \<and> \<not> decodable (row ! j) \<and>
     ''age'' = col_Name (schema ! j) \<and> ''int16'' = type_name (row ! j) \<and>
     Name name_and_age_frame = ''out'' \<and>
     map field_Name (Fields name_and_age_frame) =
       map field_Name (Fields new_frame) @ map col_Name schema \<and>
     (\<forall>i < length (Fields new_frame) + length schema.
        field_Values (Fields name_and_age_frame ! i) =
          (if i < length (Fields new_frame) then field_Values (Fields new_frame ! i) else []) @
          column_values i (rows @ [take j row]))"
proof (rule decode_failure_leaves_partial_frame)
  show "QueryFramesInto name_and_age ''out'' ''SELECT 'sam' AS name, 300 AS age;'' []
          new_frame NewInMemoryDB =
        (Failure (UnsupportedValueType ''age'' ''int16''), name_and_age_frame, NewInMemoryDB)"
    by (simp add: eval_defs name_and_age_def name_and_age_frame_def)
qed

text \<open>
  C4 as stated fails. The statement is the one of the repository's second test with the
  age 300, which the engine gives as an int16, a type the switch has no case for: the
  call returns the error, and the caller's frame has both fields and, in the first, the
  name that was decoded before the failure.
\<close>

theorem decode_failure_counterexample:
  "QueryFramesInto name_and_age ''out'' ''SELECT 'sam' AS name, 300 AS age;'' []
     new_frame NewInMemoryDB =
   (Failure (UnsupportedValueType ''age'' ''int16''),
    \<lparr>Name = ''out'',
     Fields = [\<lparr>field_Name = ''name'', field_Type = FieldTypeString,
                field_Values = [GString ''sam'']\<rparr>,
               \<lparr>field_Name = ''age'', field_Type = FieldTypeInt64, field_Values = []\<rparr>]\<rparr>,
    NewInMemoryDB)"
  by (simp add: eval_defs name_and_age_def)

text \<open>
  C5, as the code has it. The catalogue is made once, by \<open>NewInMemoryDB\<close>, and is a
  field of the handle; \<open>QueryFramesInto\<close> writes to it and never replaces or empties
  it. A call changes only the table under its own name argument: any other table the
  handle holds (unless the statement itself touches it) is still there, unchanged, when
  the call returns, and so is there for the next call on the handle.
\<close>

theorem tables_outlive_the_call:
  assumes "k \<noteq> tableName" and "\<And>d. tables (fst (Query E d query)) k = tables d k"
  shows "tables (inMemoryDb (snd (snd (QueryFramesInto E tableName query frames f db)))) k =
           tables (inMemoryDb db) k"
proof -
  let ?w = "write_frames E tableName frames (inMemoryDb db)"
  have w: "tables (snd ?w) k = tables (inMemoryDb db) k"
    using assms(1) by (rule write_frames_other)
  show ?thesis
  proof (cases "fst ?w")
    case Success
    obtain d res where q: "Query E (snd ?w) query = (d, res)"
      by (cases "Query E (snd ?w) query")
    have "tables d k = tables (snd ?w) k"
      using assms(2) [of "snd ?w"] q by simp
    with Success q w show ?thesis
      by (cases res) (simp_all add: QueryFramesInto_def Let_def split: prod.splits)
  next
    case (Failure e)
    with w show ?thesis by (simp add: QueryFramesInto_def Let_def)
  next
    case (Panic p)
    with w show ?thesis by (simp add: QueryFramesInto_def Let_def)
  qed
qed

theorem tables_outlive_the_call_witness:
  "tables (inMemoryDb (snd (snd (QueryFramesInto (table_scan ''a'') ''b'' ''SELECT * FROM a'' []
      new_frame \<lparr>inMemoryDb = \<lparr>db_name = ''mydb'', tables = [''a'' \<mapsto> no_rows_table ''a'']\<rparr>\<rparr>))))
     ''a'' = Some (no_rows_table ''a'')"
  using tables_outlive_the_call [of "''a''" "''b''" "table_scan ''a''" "''SELECT * FROM a''" "[]"
          new_frame
          "\<lparr>inMemoryDb = \<lparr>db_name = ''mydb'', tables = [''a'' \<mapsto> no_rows_table ''a'']\<rparr>\<rparr>"]
  by (simp add: table_scan_def)

text \<open>
  C5 as stated fails, at an input that reads no row. On a new handle a statement that
  reads table \<open>a\<close> fails, for there is no such table. A first call writes a frame
  without rows under the name \<open>a\<close>; on the handle it leaves, the same second call (no
  input frames, another output name) finds the table of the first call: it succeeds and
  returns the table's column as a field without values.
\<close>

theorem store_reuse_counterexample:
  "fst (QueryFramesInto (table_scan ''a'') ''b'' ''SELECT * FROM a'' [] new_frame NewInMemoryDB) =
     Failure (QueryError ''table not found: a'') \<and>
   QueryFramesInto (table_scan ''a'') ''b'' ''SELECT * FROM a'' [] new_frame
     (snd (snd (QueryFramesInto (table_scan ''a'') ''a'' ''SELECT * FROM a''
                  [Some no_rows_frame] new_frame NewInMemoryDB))) =
   (Success,
    \<lparr>Name = ''b'',
     Fields = [\<lparr>field_Name = ''label'', field_Type = FieldTypeString, field_Values = []\<rparr>]\<rparr>,
    \<lparr>inMemoryDb = \<lparr>db_name = ''mydb'', tables = [''a'' \<mapsto> no_rows_table ''a'']\<rparr>\<rparr>)"
  by (simp add: eval_defs no_rows_frame_def no_rows_table_def)




text \<open>
  C7. With no input frames the catalogue is handed to the engine as it is. When the
  engine answers \<open>SELECT '1' AS n;\<close> with one column \<open>n\<close> of a string type and the
  one row \<open>"1"\<close>, the call into a new output frame returns nil, and the frame has the
  output name and exactly one field: a string field \<open>n\<close> with the values \<open>["1"]\<close>.
\<close>

theorem select_literal_one:
  assumes "Query E (inMemoryDb db) ''SELECT '1' AS n;'' =
             (d, Inr ([\<lparr>col_Name = ''n'', col_Type = StringType k, Nullable = nl, Source = src\<rparr>],
                      [Computed [GString ''1'']]))"
  shows "QueryFramesInto E outputName ''SELECT '1' AS n;'' [] new_frame db =
           (Success,
            \<lparr>Name = outputName,
             Fields = [\<lparr>field_Name = ''n'', field_Type = FieldTypeString,
                        field_Values = [GString ''1'']\<rparr>]\<rparr>,
            db\<lparr>inMemoryDb := d\<rparr>)"
  using assms
  by (simp add: QueryFramesInto_def convertToDataFrame_def new_frame_def NewField_def
        append_at_def Append_def)

theorem select_literal_one_witness:
  "QueryFramesInto
     (fixed_answer [\<lparr>col_Name = ''n'', col_Type = StringType ''longtext'', Nullable = False,
                      Source = ''''\<rparr>] [Computed [GString ''1'']])
     ''sqlExpressionRefId'' ''SELECT '1' AS n;'' [] new_frame NewInMemoryDB =
   (Success,
    \<lparr>Name = ''sqlExpressionRefId'',
     Fields = [\<lparr>field_Name = ''n'', field_Type = FieldTypeString,
                field_Values = [GString ''1'']\<rparr>]\<rparr>,
    NewInMemoryDB\<lparr>inMemoryDb := inMemoryDb NewInMemoryDB\<rparr>)"
  using select_literal_one
          [of "fixed_answer [\<lparr>col_Name = ''n'', col_Type = StringType ''longtext'',
                      Nullable = False, Source = ''''\<rparr>] [Computed [GString ''1'']]"
              NewInMemoryDB "inMemoryDb NewInMemoryDB" "''longtext''" False "''''"
              "''sqlExpressionRefId''"]
  by (simp add: fixed_answer_def)

text \<open>
  C8, as the code has it. The catalogue outlives the call, so a second call runs the
  statement on what the first call, its statement included, left there. For an engine
  whose answer is determined by the catalogue and the statement, and a statement that
  leaves the catalogue it runs on as it found it, a second call with the same name,
  statement and input frames, into an output frame equal to the first call's, on the
  handle the first call left, returns the same error value and the same output frame (and
  leaves the handle as the first call left it): materialising the same frames under the
  same name a second time rebuilds the same table.
\<close>

theorem evaluate_twice_same_result:
  assumes "fst (Query E (snd (write_frames E tableName frames (inMemoryDb db))) query) =
             snd (write_frames E tableName frames (inMemoryDb db))"
  shows "QueryFramesInto E tableName query frames f
           (snd (snd (QueryFramesInto E tableName query frames f db))) =
         QueryFramesInto E tableName query frames f db"
proof -
  let ?w = "write_frames E tableName frames (inMemoryDb db)"
  show ?thesis
  proof (cases "fst ?w = Success")
    case True
    obtain res where q: "Query E (snd ?w) query = (snd ?w, res)"
      using assms by (cases "Query E (snd ?w) query") simp
    have 2: "snd (snd (QueryFramesInto E tableName query frames f db)) = db\<lparr>inMemoryDb := snd ?w\<rparr>"
      using True q by (cases res) (simp_all add: QueryFramesInto_def Let_def split: prod.splits)
    show ?thesis
      unfolding 2
      using True q
      by (cases res) (simp_all add: QueryFramesInto_def Let_def write_frames_again split: prod.splits)
  next
    case False
    have 2: "snd (snd (QueryFramesInto E tableName query frames f db)) = db\<lparr>inMemoryDb := snd ?w\<rparr>"
      using False by (cases "fst ?w") (simp_all add: QueryFramesInto_def Let_def)
    show ?thesis
      unfolding 2
      using False
      by (cases "fst ?w") (simp_all add: QueryFramesInto_def Let_def write_frames_again)
  qed
qed

theorem evaluate_twice_same_result_witness:
  "fst (QueryFramesInto (fixed_answer [text_column ''n''] [Computed [GString ''1'']])
          ''a'' ''SELECT '1' AS n;'' [Some label_frame] new_frame NewInMemoryDB) = Success \<and>
   QueryFramesInto (fixed_answer [text_column ''n''] [Computed [GString ''1'']])
     ''a'' ''SELECT '1' AS n;'' [Some label_frame] new_frame
     (snd (snd (QueryFramesInto (fixed_answer [text_column ''n''] [Computed [GString ''1'']])
                  ''a'' ''SELECT '1' AS n;'' [Some label_frame] new_frame NewInMemoryDB))) =
   QueryFramesInto (fixed_answer [text_column ''n''] [Computed [GString ''1'']])
     ''a'' ''SELECT '1' AS n;'' [Some label_frame] new_frame NewInMemoryDB"
proof
  show "fst (QueryFramesInto (fixed_answer [text_column ''n''] [Computed [GString ''1'']])
          ''a'' ''SELECT '1' AS n;'' [Some label_frame] new_frame NewInMemoryDB) = Success"
    by (simp add: eval_defs label_frame_def)
next
  have "fst (Query (fixed_answer [text_column ''n''] [Computed [GString ''1'']])
               (snd (write_frames (fixed_answer [text_column ''n''] [Computed [GString ''1'']])
                       ''a'' [Some label_frame] (inMemoryDb NewInMemoryDB)))
               ''SELECT '1' AS n;'') =
        snd (write_frames (fixed_answer [text_column ''n''] [Computed [GString ''1'']])
               ''a'' [Some label_frame] (inMemoryDb NewInMemoryDB))"
    by (simp add: fixed_answer_def)
  then show "QueryFramesInto (fixed_answer [text_column ''n''] [Computed [GString ''1'']])
       ''a'' ''SELECT '1' AS n;'' [Some label_frame] new_frame
       (snd (snd (QueryFramesInto (fixed_answer [text_column ''n''] [Computed [GString ''1'']])
                  ''a'' ''SELECT '1' AS n;'' [Some label_frame] new_frame NewInMemoryDB))) =
     QueryFramesInto (fixed_answer [text_column ''n''] [Computed [GString ''1'']])
       ''a'' ''SELECT '1' AS n;'' [Some label_frame] new_frame NewInMemoryDB"
    by (rule evaluate_twice_same_result)
qed

text \<open>
  C8 as stated fails for a statement that changes the catalogue. The first call of
  \<open>CREATE TABLE x (a INT)\<close> on a new handle creates the table; its result is the row
  of an OK result, which the switch does not decode, so the call returns the error of an
  undecodable value and the output frame has the field of the result's column. The
  second call, with the same arguments and a new output frame, finds the table the first
  call left: the engine refuses the statement, and the output frame has no field.
\<close>

theorem evaluate_twice_counterexample:
  "QueryFramesInto create_table_once ''out'' ''CREATE TABLE x (a INT)'' [] new_frame
     NewInMemoryDB =
   (Failure (UnsupportedValueType ''__ok_result__'' ''types.OkResult''),
    \<lparr>Name = ''out'',
     Fields = [\<lparr>field_Name = ''__ok_result__'', field_Type = FieldTypeInt64,
                field_Values = []\<rparr>]\<rparr>,
    \<lparr>inMemoryDb = \<lparr>db_name = ''mydb'', tables = [''x'' \<mapsto> created_table]\<rparr>\<rparr>) \<and>
   QueryFramesInto create_table_once ''out'' ''CREATE TABLE x (a INT)'' [] new_frame
     (snd (snd (QueryFramesInto create_table_once ''out'' ''CREATE TABLE x (a INT)'' []
                  new_frame NewInMemoryDB))) =
   (Failure (QueryError ''table with name x already exists''),
    \<lparr>Name = ''out'', Fields = []\<rparr>,
    \<lparr>inMemoryDb = \<lparr>db_name = ''mydb'', tables = [''x'' \<mapsto> created_table]\<rparr>\<rparr>)"
  by (simp add: eval_defs created_table_def)

text \<open>
  C9. Every \<open>NumberType\<close> column is given an int64 field, and the switch appends a
  float64 value as it is. So when the engine answers a statement with one
  \<open>NumberType\<close> column whose first row holds a float64, as it does for
  \<open>SELECT 1.5e0 AS x\<close>, the int64 vector's type assertion panics at the first value:
  the call ends in that panic, with the empty int64 field in the output frame. The
  float64 value is not decodable.
\<close>

theorem float64_in_number_column_panics:
  assumes "Query E (inMemoryDb db) query =
             (d, Inr ([\<lparr>col_Name = x, col_Type = NumberType k, Nullable = nl, Source = src\<rparr>],
                      Computed [GFloat64 v] # rest))"
  shows "QueryFramesInto E tableName query [] new_frame db =
           (Panic InterfaceConversion,
            \<lparr>Name = tableName,
             Fields = [\<lparr>field_Name = x, field_Type = FieldTypeInt64, field_Values = []\<rparr>]\<rparr>,
            db\<lparr>inMemoryDb := d\<rparr>)"
  using assms
  by (simp add: QueryFramesInto_def convertToDataFrame_def new_frame_def NewField_def
        append_at_def Append_def)

theorem float64_in_number_column_panics_witness:
  "QueryFramesInto
     (fixed_answer [\<lparr>col_Name = ''x'', col_Type = NumberType ''double'', Nullable = False,
                      Source = ''''\<rparr>] [Computed [GFloat64 0x3FF8000000000000]])
     ''a'' ''SELECT 1.5e0 AS x'' [] new_frame NewInMemoryDB =
   (Panic InterfaceConversion,
    \<lparr>Name = ''a'',
     Fields = [\<lparr>field_Name = ''x'', field_Type = FieldTypeInt64, field_Values = []\<rparr>]\<rparr>,
    NewInMemoryDB\<lparr>inMemoryDb := inMemoryDb NewInMemoryDB\<rparr>)"
  using float64_in_number_column_panics
          [of "fixed_answer [\<lparr>col_Name = ''x'', col_Type = NumberType ''double'',
                      Nullable = False, Source = ''''\<rparr>] [Computed [GFloat64 0x3FF8000000000000]]"
              NewInMemoryDB "''SELECT 1.5e0 AS x''" "inMemoryDb NewInMemoryDB" "''x''"
              "''double''" False "''''" "0x3FF8000000000000" "[]" "''a''"]
  by (simp add: fixed_answer_def)

text \<open>
  C10. The first statement of \<open>QueryFramesInto\<close> assigns the output frame's name, and
  nothing after it assigns the name again: however the call ends (nil, an error of
  materialisation, execution or decoding, or a panic), the output frame carries the
  name the caller gave.
\<close>

theorem QueryFramesInto_sets_Name:
  "Name (fst (snd (QueryFramesInto E tableName query frames f db))) = tableName"
  by (rule QueryFramesInto_Name)

theorem QueryFramesInto_sets_Name_witness:
  "fst (QueryFramesInto (table_scan ''t'') ''out'' ''SELECT * FROM t'' [None]
          new_frame NewInMemoryDB) = Failure NilFrame \<and>
   Name (fst (snd (QueryFramesInto (table_scan ''t'') ''out'' ''SELECT * FROM t'' [None]
          new_frame NewInMemoryDB))) = ''out''"
  using QueryFramesInto_sets_Name [of "table_scan ''t''" "''out''" "''SELECT * FROM t''"
          "[None]" new_frame NewInMemoryDB]
  by (simp add: QueryFramesInto_def writeDataframeToDb_def)

end
